theory Spec2Isabelle
  imports Main
begin

section \<open>Python values and exceptions\<close>

text \<open>
  The module \<^verbatim>\<open>api/cas/cas_auth.py\<close> works on the nested dictionaries that
  \<^verbatim>\<open>xmltodict.parse\<close> builds from an XML document: an element is a string, \<^verbatim>\<open>None\<close>
  (an empty element), a dictionary of its children, or a list (a repeated element). The
  same values are what ends up in the columns of a \<^verbatim>\<open>Member\<close>. A dictionary is an
  association list; a key is looked up from the left.
\<close>

datatype pyval =
    PNone
  | PStr string
  | PDict "(string \<times> pyval) list"
  | PList "pyval list"

text \<open>
  Exceptions are values. \<open>HTTPException code description\<close> is what \<^verbatim>\<open>flask.abort\<close>
  raises; \<open>OtherException\<close> stands for every library exception that is not a
  \<^verbatim>\<open>ValueError\<close> (a network error of \<^verbatim>\<open>urlopen\<close>, an \<^verbatim>\<open>ExpatError\<close> of the XML
  parser, a database error).
\<close>

datatype exn =
    ValueError
  | KeyError
  | TypeError
  | AttributeError
  | IndexError
  | HTTPException nat string
  | OtherException

text \<open>\<^verbatim>\<open>s.startswith(p)\<close> on strings.\<close>

definition startswith :: "string \<Rightarrow> string \<Rightarrow> bool" where
  "startswith s p = (take (length p) s = p)"

text \<open>\<^verbatim>\<open>p in s\<close> on strings: \<open>p\<close> occurs in \<open>s\<close>.\<close>

fun str_contains :: "string \<Rightarrow> string \<Rightarrow> bool" where
  "str_contains [] p = (p = [])"
| "str_contains (c # cs) p = (startswith (c # cs) p \<or> str_contains cs p)"

text \<open>
  \<^verbatim>\<open>key in v\<close> for a string \<open>key\<close>: membership among the keys of a dictionary, the
  elements of a list, the substrings of a string; \<^verbatim>\<open>None\<close> is not iterable.
\<close>

fun py_in :: "string \<Rightarrow> pyval \<Rightarrow> exn + bool" where
  "py_in key PNone = Inl TypeError"
| "py_in key (PStr s) = Inr (str_contains s key)"
| "py_in key (PDict kvs) = Inr (key \<in> set (map fst kvs))"
| "py_in key (PList vs) = Inr (PStr key \<in> set vs)"

text \<open>\<^verbatim>\<open>v[key]\<close> for a string \<open>key\<close>: only a dictionary can be indexed by a string.\<close>

fun py_getitem :: "pyval \<Rightarrow> string \<Rightarrow> exn + pyval" where
  "py_getitem (PDict kvs) key =
     (case map_of kvs key of None \<Rightarrow> Inl KeyError | Some v \<Rightarrow> Inr v)"
| "py_getitem PNone key = Inl TypeError"
| "py_getitem (PStr s) key = Inl TypeError"
| "py_getitem (PList vs) key = Inl TypeError"

text \<open>\<^verbatim>\<open>v.get(key, default)\<close>: only a dictionary has the method.\<close>

fun py_get :: "pyval \<Rightarrow> string \<Rightarrow> pyval \<Rightarrow> exn + pyval" where
  "py_get (PDict kvs) key dflt =
     (case map_of kvs key of None \<Rightarrow> Inr dflt | Some v \<Rightarrow> Inr v)"
| "py_get PNone key dflt = Inl AttributeError"
| "py_get (PStr s) key dflt = Inl AttributeError"
| "py_get (PList vs) key dflt = Inl AttributeError"

text \<open>The truth value of an object in a condition.\<close>

fun truthy :: "pyval \<Rightarrow> bool" where
  "truthy PNone = False"
| "truthy (PStr s) = (s \<noteq> [])"
| "truthy (PDict kvs) = (kvs \<noteq> [])"
| "truthy (PList vs) = (vs \<noteq> [])"

section \<open>The database, the request and the outside world\<close>

text \<open>
  Modelled from the spec: the classes \<^verbatim>\<open>Member\<close>, \<^verbatim>\<open>MemberSession\<close> and
  \<^verbatim>\<open>MemberJob\<close> of \<^verbatim>\<open>api/models\<close>, by the columns that \<^verbatim>\<open>cas_auth.py\<close> reads and
  writes. A table is the list of its rows in insertion order; \<^verbatim>\<open>.first()\<close> is the first
  row that matches. The relationship attribute \<^verbatim>\<open>.member\<close> is the row of the member
  table with the referenced primary key. The database accepts every row that is added:
  \<^verbatim>\<open>commit\<close> does not raise.
\<close>

record member =
  id_m :: nat
  first_name :: pyval
  last_name :: pyval
  username :: pyval
  email :: pyval
  organization :: pyval
  urs_token :: pyval

record member_session =
  id_s :: nat
  member_id :: nat
  session_key :: string
  creation_date :: int

record member_job =
  id_j :: nat
  job_member_id :: nat
  job_id :: string

text \<open>
  What a request leaves behind outside the process, in order: the GET requests to the
  identity server and the queries to the three tables.
\<close>

datatype event =
    CasGet string
  | ProfileGet string string
  | SessionQuery string
  | MemberQuery pyval
  | JobQuery string

record world =
  members :: "member list"
  sessions :: "member_session list"
  jobs :: "member_job list"
  trace :: "event list"

type_synonym bytes = string

text \<open>
  The configuration (\<^verbatim>\<open>current_app.config\<close>, \<^verbatim>\<open>api.settings\<close>), the current request
  and the library functions the module calls. The identity server and the clock may answer
  differently each time: their answer depends on the number of events recorded so far.
  Times are microseconds. The headers are a map from the header names as the source
  writes them.
\<close>

record env =
  CAS_SERVER :: string
  DPS_MACHINE_TOKEN :: string
  CAS_PROXY_DECRYPTION_TOKEN :: string
  headers :: "string \<rightharpoonup> string"
  base_url :: string
  utcnow :: "nat \<Rightarrow> int"
  urlopen :: "nat \<Rightarrow> string \<Rightarrow> exn + string"
  parse :: "string \<Rightarrow> exn + pyval"
  requests_get :: "nat \<Rightarrow> string \<Rightarrow> string \<Rightarrow> exn + (nat \<times> string)"
  json_loads :: "string \<Rightarrow> exn + pyval"
  create_cas_proxy_url :: "string \<Rightarrow> string \<Rightarrow> string \<Rightarrow> string"
  create_cas_proxy_validate_url :: "string \<Rightarrow> string \<Rightarrow> pyval \<Rightarrow> exn + string"
  import_key :: "string \<Rightarrow> exn + bytes"
  random_read :: "nat \<Rightarrow> bytes"
  b64decode :: "string \<Rightarrow> exn + bytes"
  pkcs1_decrypt :: "bytes \<Rightarrow> bytes \<Rightarrow> bytes \<Rightarrow> exn + bytes"
  utf8_decode :: "bytes \<Rightarrow> exn + string"

definition log_event :: "event \<Rightarrow> world \<Rightarrow> world" where
  "log_event e w = w\<lparr>trace := trace w @ [e]\<rparr>"

definition hours24 :: int where
  "hours24 = 24 * 60 * 60 * 1000000"

definition PROXY_TICKET_PREFIX :: string where
  "PROXY_TICKET_PREFIX = ''PGT-''"

definition SHA_digest_size :: nat where
  "SHA_digest_size = 20"

section \<open>The ticket decryptor\<close>

text \<open>
  The body of the \<^verbatim>\<open>try\<close> of \<^verbatim>\<open>decrypt_proxy_ticket\<close>: import the key, draw the
  sentinel of \<open>15 + dsize\<close> random bytes, decode the base64 text (the round trip
  through \<^verbatim>\<open>str\<close> and \<^verbatim>\<open>ast.literal_eval\<close> gives the decoded bytes back), decrypt,
  decode as UTF-8. Any step may raise. The bare \<^verbatim>\<open>except\<close> around it turns every
  exception into the empty string.
\<close>

definition decrypt_body :: "env \<Rightarrow> string \<Rightarrow> exn + string" where
  "decrypt_body E ticket =
     (case import_key E (CAS_PROXY_DECRYPTION_TOKEN E) of
        Inl e \<Rightarrow> Inl e
      | Inr key \<Rightarrow>
          (let dsize = SHA_digest_size;
               sentinel = random_read E (15 + dsize)
           in case b64decode E ticket of
                Inl e \<Rightarrow> Inl e
              | Inr ciphertext \<Rightarrow>
                  (case pkcs1_decrypt E key ciphertext sentinel of
                     Inl e \<Rightarrow> Inl e
                   | Inr decrypted \<Rightarrow> utf8_decode E decrypted)))"

definition decrypt_proxy_ticket :: "env \<Rightarrow> string \<Rightarrow> exn + string" where
  "decrypt_proxy_ticket E ticket =
     (if startswith ticket PROXY_TICKET_PREFIX then Inr ticket
      else (case decrypt_body E ticket of
              Inr plain \<Rightarrow> Inr plain
            | Inl e \<Rightarrow> Inr []))"

section \<open>The identity-server client\<close>

text \<open>
  The handler \<^verbatim>\<open>except ValueError\<close> of \<^verbatim>\<open>validate_cas_request\<close>: a
  \<^verbatim>\<open>ValueError\<close> is logged and the function goes on to its \<^verbatim>\<open>return\<close> with
  \<^verbatim>\<open>is_valid\<close> still \<^verbatim>\<open>False\<close> and \<^verbatim>\<open>xml_from_dict\<close> as it was when the exception was
  raised; any other exception leaves the function.
\<close>

definition except_ValueError :: "exn \<Rightarrow> pyval \<Rightarrow> exn + bool \<times> pyval" where
  "except_ValueError e xml_from_dict =
     (if e = ValueError then Inr (False, xml_from_dict) else Inl e)"

text \<open>
  The condition of \<^verbatim>\<open>is_valid\<close>:
  \<^verbatim>\<open>"cas:authenticationSuccess" in d["cas:serviceResponse"] or
  "cas:proxySuccess" in d["cas:serviceResponse"]\<close>, the second operand evaluated only when
  the first is false.
\<close>

definition success_marker_present :: "pyval \<Rightarrow> exn + bool" where
  "success_marker_present xml_from_dict =
     (case py_getitem xml_from_dict ''cas:serviceResponse'' of
        Inl e \<Rightarrow> Inl e
      | Inr sr \<Rightarrow>
          (case py_in ''cas:authenticationSuccess'' sr of
             Inl e \<Rightarrow> Inl e
           | Inr True \<Rightarrow> Inr True
           | Inr False \<Rightarrow>
               (case py_getitem xml_from_dict ''cas:serviceResponse'' of
                  Inl e \<Rightarrow> Inl e
                | Inr sr' \<Rightarrow> py_in ''cas:proxySuccess'' sr')))"

definition validate_cas_request ::
  "env \<Rightarrow> world \<Rightarrow> string \<Rightarrow> (exn + bool \<times> pyval) \<times> world" where
  "validate_cas_request E w cas_url =
     (let w1 = log_event (CasGet cas_url) w
      in case urlopen E (length (trace w)) cas_url of
           Inl e \<Rightarrow> (except_ValueError e (PDict []), w1)
         | Inr xmldump \<Rightarrow>
             (case parse E xmldump of
                Inl e \<Rightarrow> (except_ValueError e (PDict []), w1)
              | Inr xml_from_dict \<Rightarrow>
                  (case success_marker_present xml_from_dict of
                     Inl e \<Rightarrow> (except_ValueError e xml_from_dict, w1)
                   | Inr is_valid \<Rightarrow> (Inr (is_valid, xml_from_dict), w1))))"

section \<open>The session cache\<close>

definition bind_exn :: "exn + 'a \<Rightarrow> ('a \<Rightarrow> exn + 'b) \<Rightarrow> exn + 'b" where
  "bind_exn r f = (case r of Inl e \<Rightarrow> Inl e | Inr v \<Rightarrow> f v)"

definition get_cas_attribute_value :: "pyval \<Rightarrow> string \<Rightarrow> exn + pyval" where
  "get_cas_attribute_value attributes attribute_key =
     (if truthy attributes then
        (case py_in (''cas:'' @ attribute_key) attributes of
           Inl e \<Rightarrow> Inl e
         | Inr True \<Rightarrow> py_getitem attributes (''cas:'' @ attribute_key)
         | Inr False \<Rightarrow> Inr (PStr []))
      else Inr (PStr []))"

text \<open>The primary key the database gives a new row: above every key in use.\<close>

definition next_id :: "nat list \<Rightarrow> nat" where
  "next_id ids = Suc (foldr max ids 0)"

text \<open>Writing to the object \<^verbatim>\<open>.first()\<close> returned changes that row and no other.\<close>

fun update_first :: "('a \<Rightarrow> bool) \<Rightarrow> ('a \<Rightarrow> 'a) \<Rightarrow> 'a list \<Rightarrow> 'a list" where
  "update_first P f [] = []"
| "update_first P f (x # xs) = (if P x then f x # xs else x # update_first P f xs)"

definition member_of :: "world \<Rightarrow> nat \<Rightarrow> member option" where
  "member_of w i = find (\<lambda>m. id_m m = i) (members w)"

text \<open>
  The attributes a new \<^verbatim>\<open>Member\<close> is built from, in the order the keyword arguments
  are evaluated.
\<close>

definition new_member :: "nat \<Rightarrow> pyval \<Rightarrow> pyval \<Rightarrow> pyval \<Rightarrow> exn + member" where
  "new_member i attributes usr urs_access_token =
     bind_exn (get_cas_attribute_value attributes ''given_name'') (\<lambda>given.
     bind_exn (get_cas_attribute_value attributes ''family_name'') (\<lambda>family.
     bind_exn (get_cas_attribute_value attributes ''email'') (\<lambda>mail.
     bind_exn (get_cas_attribute_value attributes ''organization'') (\<lambda>org.
       Inr \<lparr>id_m = i, first_name = given, last_name = family, username = usr,
            email = mail, organization = org, urs_token = urs_access_token\<rparr>))))"

text \<open>
  The first two lines of \<^verbatim>\<open>start_member_session\<close>: the attributes node of the
  response, the empty dictionary when the authentication-success node has none.
\<close>

definition session_attributes :: "pyval \<Rightarrow> exn + pyval" where
  "session_attributes doc =
     bind_exn (py_getitem doc ''cas:serviceResponse'') (\<lambda>sr.
     bind_exn (py_getitem sr ''cas:authenticationSuccess'') (\<lambda>xml_from_dict.
       py_get xml_from_dict ''cas:attributes'' (PDict [])))"

definition start_member_session ::
  "env \<Rightarrow> world \<Rightarrow> bool \<times> pyval \<Rightarrow> string \<Rightarrow> (exn + member_session) \<times> world" where
  "start_member_session E w cas_response ticket =
     (case session_attributes (snd cas_response) of
        Inl e \<Rightarrow> (Inl e, w)
      | Inr attributes \<Rightarrow>
     (case get_cas_attribute_value attributes ''preferred_username'' of
        Inl e \<Rightarrow> (Inl e, w)
      | Inr usr \<Rightarrow>
     (let w1 = log_event (MemberQuery usr) w;
          found = find (\<lambda>m. username m = usr) (members w)
      in case get_cas_attribute_value attributes ''access_token'' of
           Inl e \<Rightarrow> (Inl e, w1)
         | Inr urs_access_token \<Rightarrow>
     (case (case found of
              None \<Rightarrow>
                (case new_member (next_id (map id_m (members w1))) attributes usr
                        urs_access_token of
                   Inl e \<Rightarrow> Inl e
                 | Inr m \<Rightarrow> Inr (m, w1\<lparr>members := members w1 @ [m]\<rparr>))
            | Some m \<Rightarrow>
                Inr (m\<lparr>urs_token := urs_access_token\<rparr>,
                     w1\<lparr>members :=
                          update_first (\<lambda>m. username m = usr)
                            (\<lambda>m. m\<lparr>urs_token := urs_access_token\<rparr>) (members w1)\<rparr>)) of
        Inl e \<Rightarrow> (Inl e, w1)
      | Inr (m, w2) \<Rightarrow>
          (let member_session =
                 \<lparr>id_s = next_id (map id_s (sessions w2)), member_id = id_m m,
                  session_key = ticket, creation_date = utcnow E (length (trace w2))\<rparr>
           in (Inr member_session, w2\<lparr>sessions := sessions w2 @ [member_session]\<rparr>))))))"

text \<open>
  The condition of the cache hit:
  \<^verbatim>\<open>cas_session is not None and cas_session.creation_date + timedelta(hours=24) > datetime.utcnow()\<close>.
\<close>

definition session_fresh :: "member_session option \<Rightarrow> int \<Rightarrow> bool" where
  "session_fresh cas_session now =
     (case cas_session of None \<Rightarrow> False | Some s \<Rightarrow> creation_date s + hours24 > now)"

text \<open>The one-time proxy ticket of the first answer.\<close>

definition proxy_ticket_of :: "pyval \<Rightarrow> exn + pyval" where
  "proxy_ticket_of doc =
     bind_exn (py_getitem doc ''cas:serviceResponse'') (\<lambda>sr.
     bind_exn (py_getitem sr ''cas:proxySuccess'') (\<lambda>xml_from_dict.
       py_getitem xml_from_dict ''cas:proxyTicket''))"

definition validate_proxy ::
  "env \<Rightarrow> world \<Rightarrow> string \<Rightarrow> (exn + member_session option) \<times> world" where
  "validate_proxy E w ticket =
     (case decrypt_proxy_ticket E ticket of
        Inl e \<Rightarrow> (Inl e, w)
      | Inr decrypted_ticket \<Rightarrow>
     (let w1 = log_event (SessionQuery decrypted_ticket) w;
          cas_session = find (\<lambda>s. session_key s = decrypted_ticket) (sessions w)
      in if session_fresh cas_session (utcnow E (length (trace w1))) then (Inr cas_session, w1)
         else
           (let cas_validate_proxy_url =
                  create_cas_proxy_url E (CAS_SERVER E) (base_url E) decrypted_ticket
            in case validate_cas_request E w1 cas_validate_proxy_url of
                 (Inl e, w2) \<Rightarrow> (Inl e, w2)
               | (Inr cas_response, w2) \<Rightarrow>
                   if fst cas_response then
                     (case bind_exn (proxy_ticket_of (snd cas_response))
                             (create_cas_proxy_validate_url E (CAS_SERVER E) (base_url E)) of
                        Inl e \<Rightarrow> (Inl e, w2)
                      | Inr proxy_validate_url \<Rightarrow>
                          (case validate_cas_request E w2 proxy_validate_url of
                             (Inl e, w3) \<Rightarrow> (Inl e, w3)
                           | (Inr cas_proxy_response, w3) \<Rightarrow>
                               if fst cas_proxy_response then
                                 (case start_member_session E w3 cas_proxy_response
                                         decrypted_ticket of
                                    (Inl e, w4) \<Rightarrow> (Inl e, w4)
                                  | (Inr member_session, w4) \<Rightarrow> (Inr (Some member_session), w4))
                               else (Inr None, w3)))
                   else (Inr None, w2))))"

section \<open>The machine-token and bearer-token validators\<close>

definition validate_dps_job :: "env \<Rightarrow> world \<Rightarrow> string \<Rightarrow> string \<Rightarrow> member option \<times> world" where
  "validate_dps_job E w dps_token jid =
     (if dps_token \<noteq> DPS_MACHINE_TOKEN E then (None, w)
      else
        (let w1 = log_event (JobQuery jid) w;
             dps_job = find (\<lambda>j. job_id j = jid) (jobs w)
         in case dps_job of
              None \<Rightarrow> (None, w1)
            | Some j \<Rightarrow> (member_of w1 (job_member_id j), w1)))"

text \<open>
  \<^verbatim>\<open>validate_bearer\<close> returns the parsed profile, or \<^verbatim>\<open>None\<close> (here \<open>PNone\<close>) when
  the status is not 200.
\<close>

definition validate_bearer :: "env \<Rightarrow> world \<Rightarrow> string \<Rightarrow> (exn + pyval) \<times> world" where
  "validate_bearer E w token =
     (let url = CAS_SERVER E @ ''/oauth2.0/profile'';
          w1 = log_event (ProfileGet url token) w
      in case requests_get E (length (trace w)) url (''Bearer '' @ token) of
           Inl e \<Rightarrow> (Inl e, w1)
         | Inr (status_code, body) \<Rightarrow>
             if status_code = 200 then
               (case json_loads E body of Inl e \<Rightarrow> (Inl e, w1) | Inr v \<Rightarrow> (Inr v, w1))
             else (Inr PNone, w1))"

section \<open>The authentication facade\<close>

text \<open>
  \<^verbatim>\<open>bearer.split()\<close>: the maximal runs of characters that are not white space. A
  header value is a string of the code points 0 to 255, of which these count as white
  space.
\<close>

definition is_space :: "char \<Rightarrow> bool" where
  "is_space c = (c \<in> set [CHR '' '', CHR 0x09, CHR 0x0A, CHR 0x0B, CHR 0x0C, CHR 0x0D,
                           CHR 0x1C, CHR 0x1D, CHR 0x1E, CHR 0x1F, CHR 0x85, CHR 0xA0])"

fun split_from :: "string \<Rightarrow> string \<Rightarrow> string list" where
  "split_from cur [] = (if cur = [] then [] else [cur])"
| "split_from cur (c # cs) =
     (if is_space c then (if cur = [] then split_from [] cs else cur # split_from [] cs)
      else split_from (cur @ [c]) cs)"

definition py_split :: "string \<Rightarrow> string list" where
  "py_split s = split_from [] s"

text \<open>\<^verbatim>\<open>xs[i]\<close> for an index that is not negative.\<close>

definition py_index :: "'a list \<Rightarrow> nat \<Rightarrow> exn + 'a" where
  "py_index xs i = (if i < length xs then Inr (xs ! i) else Inl IndexError)"

text \<open>
  The resolver returns a \<^verbatim>\<open>Member\<close> on the proxy path and the profile dictionary on the
  bearer path.
\<close>

datatype principal = PMember member | PProfile pyval

definition get_authorized_user :: "env \<Rightarrow> world \<Rightarrow> (exn + principal option) \<times> world" where
  "get_authorized_user E w =
     (case (case headers E ''proxy-ticket'' of
              None \<Rightarrow> (Inr None, w)
            | Some t \<Rightarrow> validate_proxy E w t) of
        (Inl e, w1) \<Rightarrow> (Inl e, w1)
      | (Inr (Some member_session), w1) \<Rightarrow>
          (Inr (map_option PMember (member_of w1 (member_id member_session))), w1)
      | (Inr None, w1) \<Rightarrow>
          (case headers E ''Authorization'' of
             None \<Rightarrow> (Inr None, w1)
           | Some bearer \<Rightarrow>
               (case py_index (py_split bearer) 1 of
                  Inl e \<Rightarrow> (Inl e, w1)
                | Inr token \<Rightarrow>
                    (case validate_bearer E w1 token of
                       (Inl e, w2) \<Rightarrow> (Inl e, w2)
                     | (Inr authorized, w2) \<Rightarrow>
                         if authorized \<noteq> PNone then (Inr (Some (PProfile authorized)), w2)
                         else (Inr None, w2)))))"

definition is_valid_dps_request :: "env \<Rightarrow> bool" where
  "is_valid_dps_request E =
     (headers E ''dps-machine-token'' \<noteq> None \<and> headers E ''dps-job-id'' \<noteq> None)"

text \<open>\<^verbatim>\<open>request.headers[name]\<close>.\<close>

definition header :: "env \<Rightarrow> string \<Rightarrow> exn + string" where
  "header E name = (case headers E name of None \<Rightarrow> Inl KeyError | Some v \<Rightarrow> Inr v)"

definition get_dps_user :: "env \<Rightarrow> world \<Rightarrow> (exn + member option) \<times> world" where
  "get_dps_user E w =
     (if is_valid_dps_request E then
        (case header E ''dps-machine-token'' of
           Inl e \<Rightarrow> (Inl e, w)
         | Inr tok \<Rightarrow>
             (case header E ''dps-job-id'' of
                Inl e \<Rightarrow> (Inl e, w)
              | Inr jid \<Rightarrow>
                  (case validate_dps_job E w tok jid of (dps_user, w1) \<Rightarrow> (Inr dps_user, w1))))
      else (Inr None, w))"

text \<open>
  A protected handler runs on the world and returns a result or raises. The function
  \<^verbatim>\<open>wrap\<close> that \<^verbatim>\<open>login_required\<close> defines around it ends in
  \<^verbatim>\<open>abort(403, description="Not authorized.")\<close>.
\<close>

type_synonym 'r handler = "world \<Rightarrow> (exn + 'r) \<times> world"

definition not_authorized :: exn where
  "not_authorized = HTTPException 403 ''Not authorized.''"

definition login_required_wrap :: "'r handler \<Rightarrow> env \<Rightarrow> 'r handler" where
  "login_required_wrap wrapped_function E w =
     (case (case headers E ''proxy-ticket'' of
              None \<Rightarrow> (Inr None, w)
            | Some t \<Rightarrow> validate_proxy E w t) of
        (Inl e, w1) \<Rightarrow> (Inl e, w1)
      | (Inr (Some authorized), w1) \<Rightarrow> wrapped_function w1
      | (Inr None, w1) \<Rightarrow>
          (case headers E ''Authorization'' of
             None \<Rightarrow> (Inl not_authorized, w1)
           | Some bearer \<Rightarrow>
               (case py_index (py_split bearer) 1 of
                  Inl e \<Rightarrow> (Inl e, w1)
                | Inr token \<Rightarrow>
                    (case validate_bearer E w1 token of
                       (Inl e, w2) \<Rightarrow> (Inl e, w2)
                     | (Inr authorized, w2) \<Rightarrow>
                         if authorized \<noteq> PNone then wrapped_function w2
                         else (Inl not_authorized, w2)))))"

definition dps_authorized_wrap :: "'r handler \<Rightarrow> env \<Rightarrow> 'r handler" where
  "dps_authorized_wrap wrapped_function E w =
     (if is_valid_dps_request E then
        (case header E ''dps-machine-token'' of
           Inl e \<Rightarrow> (Inl e, w)
         | Inr tok \<Rightarrow>
             (case header E ''dps-job-id'' of
                Inl e \<Rightarrow> (Inl e, w)
              | Inr jid \<Rightarrow>
                  (case validate_dps_job E w tok jid of
                     (Some authorized, w1) \<Rightarrow> wrapped_function w1
                   | (None, w1) \<Rightarrow> (Inl not_authorized, w1))))
      else (Inl not_authorized, w))"

text \<open>
  The decorators themselves: each defines \<^verbatim>\<open>wrap\<close> and ends there, without
  \<^verbatim>\<open>return wrap\<close>, so that the call \<^verbatim>\<open>login_required(f)\<close> evaluates to \<^verbatim>\<open>None\<close>
  and \<^verbatim>\<open>@login_required\<close> binds the method's name to \<^verbatim>\<open>None\<close>.
\<close>

definition login_required :: "'r handler \<Rightarrow> (env \<Rightarrow> 'r handler) option" where
  "login_required wrapped_function =
     (let wrap = login_required_wrap wrapped_function in None)"

definition dps_authorized :: "'r handler \<Rightarrow> (env \<Rightarrow> 'r handler) option" where
  "dps_authorized wrapped_function =
     (let wrap = dps_authorized_wrap wrapped_function in None)"

section \<open>Notions used in the statements\<close>

text \<open>A request to the profile endpoint, the remote call of the bearer path.\<close>

fun is_remote_profile :: "event \<Rightarrow> bool" where
  "is_remote_profile (ProfileGet u t) = True"
| "is_remote_profile e = False"

text \<open>The events of a proxy validation after the cache lookup.\<close>

fun is_cas_side :: "event \<Rightarrow> bool" where
  "is_cas_side (CasGet u) = True"
| "is_cas_side (MemberQuery u) = True"
| "is_cas_side e = False"

text \<open>The invariant of the session store: no two rows carry the same ticket value.\<close>

definition one_session_per_ticket :: "world \<Rightarrow> bool" where
  "one_session_per_ticket w = distinct (map session_key (sessions w))"

text \<open>
  The value of an attribute in the attributes dictionary of the second answer, the empty
  string when the key is absent, and the \<^verbatim>\<open>Member\<close> that is built from these values.
\<close>

definition attribute_or_empty :: "(string \<times> pyval) list \<Rightarrow> string \<Rightarrow> pyval" where
  "attribute_or_empty attrs key =
     (case map_of attrs (''cas:'' @ key) of None \<Rightarrow> PStr [] | Some v \<Rightarrow> v)"

definition member_from :: "nat \<Rightarrow> (string \<times> pyval) list \<Rightarrow> member" where
  "member_from i attrs =
     \<lparr>id_m = i,
      first_name = attribute_or_empty attrs ''given_name'',
      last_name = attribute_or_empty attrs ''family_name'',
      username = attribute_or_empty attrs ''preferred_username'',
      email = attribute_or_empty attrs ''email'',
      organization = attribute_or_empty attrs ''organization'',
      urs_token = attribute_or_empty attrs ''access_token''\<rparr>"

text \<open>
  The same for the sessions that are live at the time \<open>now\<close>, those created less than 24
  hours before.
\<close>

definition live_sessions :: "int \<Rightarrow> world \<Rightarrow> member_session list" where
  "live_sessions now w = filter (\<lambda>s. now < creation_date s + hours24) (sessions w)"

definition one_live_session_per_ticket :: "int \<Rightarrow> world \<Rightarrow> bool" where
  "one_live_session_per_ticket now w = distinct (map session_key (live_sessions now w))"

section \<open>Test doubles and scenarios\<close>

text \<open>
  The documents of a two-hop handshake as \<^verbatim>\<open>xmltodict\<close> returns them, a rejection,
  an error page in place of an answer, and an answer \<^verbatim>\<open><cas:proxySuccess/>\<close> with no
  child.
\<close>

definition proxy_success_doc :: pyval where
  "proxy_success_doc =
     PDict [(''cas:serviceResponse'',
       PDict [(''cas:proxySuccess'', PDict [(''cas:proxyTicket'', PStr ''PT-1'')])])]"

definition authentication_success_doc :: pyval where
  "authentication_success_doc =
     PDict [(''cas:serviceResponse'',
       PDict [(''cas:authenticationSuccess'',
         PDict [(''cas:user'', PStr ''jdoe''),
                (''cas:attributes'',
                  PDict [(''cas:preferred_username'', PStr ''jdoe''),
                         (''cas:access_token'', PStr ''tok1'')])])])]"



definition empty_proxy_success_doc :: pyval where
  "empty_proxy_success_doc =
     PDict [(''cas:serviceResponse'', PDict [(''cas:proxySuccess'', PNone)])]"

text \<open>
  An environment for the scenarios: the request headers, the clock and the identity server
  are given; the server answers a listed URL with a body that the parser turns into the
  listed document, and any other URL with a network error. The decryptor knows two
  ciphertexts: \<open>ENC(PGT-abc123)\<close> stands for the encryption of the ticket
  \<open>PGT-abc123\<close>, and \<open>BAD(PGT-abc123)\<close> for a ciphertext of the right length
  whose padding check fails, for which the library returns the sentinel it was given. The
  random source draws the letter \<open>A\<close>.
\<close>

definition test_env :: "(string \<times> string) list \<Rightarrow> int \<Rightarrow> (string \<times> pyval) list \<Rightarrow> env" where
  "test_env hs now answers =
     \<lparr>CAS_SERVER = ''cas'',
      DPS_MACHINE_TOKEN = ''s3cret'',
      CAS_PROXY_DECRYPTION_TOKEN = ''key'',
      headers = map_of hs,
      base_url = ''api'',
      utcnow = (\<lambda>n. now),
      urlopen = (\<lambda>n url. if url \<in> set (map fst answers) then Inr url else Inl OtherException),
      parse = (\<lambda>body. case map_of answers body of
                          None \<Rightarrow> Inl OtherException | Some d \<Rightarrow> Inr d),
      requests_get = (\<lambda>n url auth. Inr (if auth = ''Bearer good'' then (200, ''{}'')
                                          else (401, []))),
      json_loads = (\<lambda>body. Inr (PDict [(''id'', PStr ''jdoe'')])),
      create_cas_proxy_url = (\<lambda>server service ticket. server @ ''/proxy?pgt='' @ ticket),
      create_cas_proxy_validate_url =
        (\<lambda>server service v. case v of
             PStr t \<Rightarrow> Inr (server @ ''/proxyValidate?ticket='' @ t)
           | _ \<Rightarrow> Inl TypeError),
      import_key = (\<lambda>k. Inr k),
      random_read = (\<lambda>n. replicate n CHR ''A''),
      b64decode = (\<lambda>s. if s = ''RU5DKFBHVC1hYmMxMjMp'' then Inr ''ENC(PGT-abc123)''
                       else if s = ''QkFEKFBHVC1hYmMxMjMp'' then Inr ''BAD(PGT-abc123)''
                       else Inl ValueError),
      pkcs1_decrypt = (\<lambda>key ciphertext sentinel.
                         if ciphertext = ''ENC(PGT-abc123)'' then Inr ''PGT-abc123''
                         else if ciphertext = ''BAD(PGT-abc123)'' then Inr sentinel
                         else Inl ValueError),
      utf8_decode = (\<lambda>b. Inr b)\<rparr>"

definition two_hops :: "(string \<times> pyval) list" where
  "two_hops = [(''cas/proxy?pgt=PGT-abc123'', proxy_success_doc),
               (''cas/proxyValidate?ticket=PT-1'', authentication_success_doc)]"

text \<open>
  A store with one member, one session created at time 0 and one job; the same store after
  the ticket has been validated again; an empty store.
\<close>

definition jdoe :: member where
  "jdoe = \<lparr>id_m = 1, first_name = PStr ''J'', last_name = PStr ''Doe'',
           username = PStr ''jdoe'', email = PStr [], organization = PStr [],
           urs_token = PStr ''tok0''\<rparr>"

definition cached_world :: world where
  "cached_world =
     \<lparr>members = [jdoe],
      sessions = [\<lparr>id_s = 1, member_id = 1, session_key = ''PGT-abc123'', creation_date = 0\<rparr>],
      jobs = [\<lparr>id_j = 1, job_member_id = 1, job_id = ''job-7''\<rparr>],
      trace = []\<rparr>"

definition empty_world :: world where
  "empty_world = \<lparr>members = [], sessions = [], jobs = [], trace = []\<rparr>"

definition revalidated_world :: "int \<Rightarrow> world" where
  "revalidated_world now =
     \<lparr>members = [jdoe\<lparr>urs_token := PStr ''tok1''\<rparr>],
      sessions = [\<lparr>id_s = 1, member_id = 1, session_key = ''PGT-abc123'', creation_date = 0\<rparr>,
                  \<lparr>id_s = 2, member_id = 1, session_key = ''PGT-abc123'', creation_date = now\<rparr>],
      jobs = [\<lparr>id_j = 1, job_member_id = 1, job_id = ''job-7''\<rparr>],
      trace = [SessionQuery ''PGT-abc123'', CasGet ''cas/proxy?pgt=PGT-abc123'',
               CasGet ''cas/proxyValidate?ticket=PT-1'', MemberQuery (PStr ''jdoe'')]\<rparr>"

section \<open>Basic facts\<close>

lemma member_of_log_event [simp]: "member_of (log_event e w) i = member_of w i"
  by (simp add: member_of_def log_event_def)

lemma log_event_fields [simp]:
  "members (log_event e w) = members w"
  "sessions (log_event e w) = sessions w"
  "jobs (log_event e w) = jobs w"
  "trace (log_event e w) = trace w @ [e]"
  by (simp_all add: log_event_def)

lemma validate_cas_request_world:
  "validate_cas_request E w url = (r, w') \<Longrightarrow> w' = log_event (CasGet url) w"
  by (auto simp: validate_cas_request_def Let_def split: sum.splits)


lemma validate_cas_request_success:
  assumes "fst (validate_cas_request E w url) = Inr (True, doc)"
  shows "validate_cas_request E w url = (Inr (True, doc), log_event (CasGet url) w)"
  using assms by (metis prod.collapse validate_cas_request_world)

lemma start_member_session_shape:
  assumes "start_member_session E w r k = (res, w')"
  shows "jobs w' = jobs w"
    and "\<exists>evs. trace w' = trace w @ evs \<and> (\<forall>e \<in> set evs. is_cas_side e)"
    and "case res of
           Inl e \<Rightarrow> sessions w' = sessions w
         | Inr ms \<Rightarrow> sessions w' = sessions w @ [ms] \<and> session_key ms = k \<and>
                     id_s ms = next_id (map id_s (sessions w))"
  using assms
  by (auto simp: start_member_session_def Let_def split: sum.splits option.splits)

lemma validate_proxy_hit:
  assumes "decrypt_proxy_ticket E ticket = Inr k"
    and "find (\<lambda>s. session_key s = k) (sessions w) = Some s"
    and "utcnow E (Suc (length (trace w))) < creation_date s + hours24"
  shows "validate_proxy E w ticket = (Inr (Some s), log_event (SessionQuery k) w)"
  using assms by (simp add: validate_proxy_def Let_def session_fresh_def)

lemma validate_proxy_miss:
  assumes dec: "decrypt_proxy_ticket E ticket = Inr k"
    and miss: "\<not> session_fresh (find (\<lambda>s. session_key s = k) (sessions w))
                 (utcnow E (Suc (length (trace w))))"
    and run: "validate_proxy E w ticket = (res, w')"
  shows "jobs w' = jobs w"
    and "\<exists>evs. trace w' = trace w @ SessionQuery k #
            CasGet (create_cas_proxy_url E (CAS_SERVER E) (base_url E) k) # evs \<and>
            (\<forall>e \<in> set evs. is_cas_side e)"
    and "case res of
           Inr (Some ms) \<Rightarrow> sessions w' = sessions w @ [ms] \<and> session_key ms = k \<and>
                     id_s ms = next_id (map id_s (sessions w))
         | _ \<Rightarrow> sessions w' = sessions w"
proof -
  let ?w1 = "log_event (SessionQuery k) w"
  let ?url = "create_cas_proxy_url E (CAS_SERVER E) (base_url E) k"
  let ?w2 = "log_event (CasGet ?url) ?w1"
  obtain r1 where r1: "validate_cas_request E ?w1 ?url = (r1, ?w2)"
    by (metis validate_cas_request_world surj_pair)
  show "jobs w' = jobs w"
    using dec miss run r1
    by (auto simp: validate_proxy_def Let_def split: sum.splits if_splits prod.splits
        dest!: validate_cas_request_world start_member_session_shape(1))
  show "\<exists>evs. trace w' = trace w @ SessionQuery k # CasGet ?url # evs \<and>
            (\<forall>e \<in> set evs. is_cas_side e)"
    using dec miss run r1
    by (auto simp: validate_proxy_def Let_def split: sum.splits if_splits prod.splits
        dest!: validate_cas_request_world start_member_session_shape(2))
  show "case res of
           Inr (Some ms) \<Rightarrow> sessions w' = sessions w @ [ms] \<and> session_key ms = k \<and>
                     id_s ms = next_id (map id_s (sessions w))
         | _ \<Rightarrow> sessions w' = sessions w"
    using dec miss run r1
    by (auto simp: validate_proxy_def Let_def split: sum.splits if_splits prod.splits option.splits
        dest!: validate_cas_request_world start_member_session_shape(3))
qed

lemma validate_proxy_sessions:
  assumes dec: "decrypt_proxy_ticket E ticket = Inr k"
    and run: "validate_proxy E w ticket = (res, w')"
  shows "sessions w' = sessions w \<or>
         (\<exists>ms. res = Inr (Some ms) \<and> sessions w' = sessions w @ [ms] \<and> session_key ms = k \<and>
               id_s ms = next_id (map id_s (sessions w)))"
proof (cases "session_fresh (find (\<lambda>s. session_key s = k) (sessions w))
                (utcnow E (Suc (length (trace w))))")
  case True
  with dec run show ?thesis
    by (auto simp: validate_proxy_def Let_def)
next
  case False
  from validate_proxy_miss(3) [OF dec False run] show ?thesis
    by (auto split: sum.splits option.splits)
qed

lemma less_next_id: "x \<in> set xs \<Longrightarrow> x < next_id xs"
  by (induction xs) (auto simp: next_id_def)

lemma find_distinct_key:
  "distinct (map f xs) \<Longrightarrow> x \<in> set xs \<Longrightarrow> find (\<lambda>y. f y = f x) xs = Some x"
  by (induction xs) (auto simp: image_iff)

text \<open>
  While no two sessions share a ticket value, the lookup for the key of a stored session
  finds that session.
\<close>

lemma find_unique_session:
  "one_session_per_ticket w \<Longrightarrow> s \<in> set (sessions w) \<Longrightarrow>
     find (\<lambda>x. session_key x = session_key s) (sessions w) = Some s"
  unfolding one_session_per_ticket_def by (rule find_distinct_key)

lemma cas_side_not_profile: "is_cas_side e \<Longrightarrow> \<not> is_remote_profile e"
  by (cases e) simp_all

lemma validate_proxy_no_profile:
  assumes run: "validate_proxy E w t = (res, w')"
  shows "\<exists>evs. trace w' = trace w @ evs \<and> (\<forall>e \<in> set evs. \<not> is_remote_profile e)"
proof -
  have "\<exists>k. decrypt_proxy_ticket E t = Inr k"
    by (simp add: decrypt_proxy_ticket_def split: sum.splits)
  then obtain k where dec: "decrypt_proxy_ticket E t = Inr k"
    by blast
  show ?thesis
  proof (cases "session_fresh (find (\<lambda>s. session_key s = k) (sessions w))
                  (utcnow E (Suc (length (trace w))))")
    case True
    with dec run have "trace w' = trace w @ [SessionQuery k]"
      by (auto simp: validate_proxy_def Let_def)
    then show ?thesis by simp
  next
    case False
    from validate_proxy_miss(2) [OF dec False run] obtain evs where
      tr: "trace w' = trace w @ SessionQuery k #
             CasGet (create_cas_proxy_url E (CAS_SERVER E) (base_url E) k) # evs"
      and side: "\<forall>e \<in> set evs. is_cas_side e"
      by blast
    let ?evs = "SessionQuery k # CasGet (create_cas_proxy_url E (CAS_SERVER E) (base_url E) k) # evs"
    from side have "\<forall>e \<in> set ?evs. \<not> is_remote_profile e"
      by (auto dest: cas_side_not_profile)
    with tr show ?thesis by blast
  qed
qed

section \<open>Facts about the scenarios\<close>

lemma test_env_fields:
  "CAS_SERVER (test_env hs now ans) = ''cas''"
  "DPS_MACHINE_TOKEN (test_env hs now ans) = ''s3cret''"
  "CAS_PROXY_DECRYPTION_TOKEN (test_env hs now ans) = ''key''"
  "headers (test_env hs now ans) = map_of hs"
  "base_url (test_env hs now ans) = ''api''"
  "utcnow (test_env hs now ans) n = now"
  "urlopen (test_env hs now ans) n url =
     (if url \<in> set (map fst ans) then Inr url else Inl OtherException)"
  "parse (test_env hs now ans) body =
     (case map_of ans body of None \<Rightarrow> Inl OtherException | Some d \<Rightarrow> Inr d)"
  "requests_get (test_env hs now ans) n url auth =
     Inr (if auth = ''Bearer good'' then (200, ''{}'') else (401, []))"
  "json_loads (test_env hs now ans) body = Inr (PDict [(''id'', PStr ''jdoe'')])"
  "create_cas_proxy_url (test_env hs now ans) server service ticket =
     server @ ''/proxy?pgt='' @ ticket"
  "create_cas_proxy_validate_url (test_env hs now ans) server service v =
     (case v of PStr t \<Rightarrow> Inr (server @ ''/proxyValidate?ticket='' @ t) | _ \<Rightarrow> Inl TypeError)"
  "import_key (test_env hs now ans) k = Inr k"
  "random_read (test_env hs now ans) n = replicate n CHR ''A''"
  "b64decode (test_env hs now ans) s =
     (if s = ''RU5DKFBHVC1hYmMxMjMp'' then Inr ''ENC(PGT-abc123)''
      else if s = ''QkFEKFBHVC1hYmMxMjMp'' then Inr ''BAD(PGT-abc123)''
      else Inl ValueError)"
  "pkcs1_decrypt (test_env hs now ans) key ciphertext sentinel =
     (if ciphertext = ''ENC(PGT-abc123)'' then Inr ''PGT-abc123''
      else if ciphertext = ''BAD(PGT-abc123)'' then Inr sentinel
      else Inl ValueError)"
  "utf8_decode (test_env hs now ans) b = Inr b"
  by (simp_all add: test_env_def split: pyval.splits)

lemma cached_world_fields:
  "members cached_world = [jdoe]"
  "sessions cached_world =
     [\<lparr>id_s = 1, member_id = 1, session_key = ''PGT-abc123'', creation_date = 0\<rparr>]"
  "jobs cached_world = [\<lparr>id_j = 1, job_member_id = 1, job_id = ''job-7''\<rparr>]"
  "trace cached_world = []"
  by (simp_all add: cached_world_def)

lemma decrypt_test_pgt:
  "decrypt_proxy_ticket E ''PGT-abc123'' = Inr ''PGT-abc123''"
  by (simp add: decrypt_proxy_ticket_def startswith_def PROXY_TICKET_PREFIX_def)


lemma test_env_first_url:
  "create_cas_proxy_url (test_env hs now ans) (CAS_SERVER (test_env hs now ans))
     (base_url (test_env hs now ans)) ''PGT-abc123'' = ''cas/proxy?pgt=PGT-abc123''"
  by (simp add: test_env_fields)


lemma two_hops_first:
  "validate_cas_request (test_env hs now two_hops) w ''cas/proxy?pgt=PGT-abc123'' =
     (Inr (True, proxy_success_doc), log_event (CasGet ''cas/proxy?pgt=PGT-abc123'') w)"
  by (simp add: validate_cas_request_def test_env_fields two_hops_def proxy_success_doc_def
      success_marker_present_def Let_def)

lemma two_hops_second:
  "validate_cas_request (test_env hs now two_hops) w ''cas/proxyValidate?ticket=PT-1'' =
     (Inr (True, authentication_success_doc),
      log_event (CasGet ''cas/proxyValidate?ticket=PT-1'') w)"
  by (simp add: validate_cas_request_def test_env_fields two_hops_def
      authentication_success_doc_def success_marker_present_def Let_def)

lemma two_hops_proxy_ticket:
  "bind_exn (proxy_ticket_of proxy_success_doc)
     (create_cas_proxy_validate_url (test_env hs now ans) ''cas'' ''api'') =
   Inr ''cas/proxyValidate?ticket=PT-1''"
  by (simp add: bind_exn_def proxy_ticket_of_def proxy_success_doc_def test_env_fields)

lemma jdoe_attributes:
  "session_attributes authentication_success_doc =
     Inr (PDict [(''cas:preferred_username'', PStr ''jdoe''), (''cas:access_token'', PStr ''tok1'')])"
  by (simp add: session_attributes_def bind_exn_def authentication_success_doc_def)

lemma revalidated_world_fields:
  "members (revalidated_world now) = [jdoe\<lparr>urs_token := PStr ''tok1''\<rparr>]"
  "sessions (revalidated_world now) =
     [\<lparr>id_s = 1, member_id = 1, session_key = ''PGT-abc123'', creation_date = 0\<rparr>,
      \<lparr>id_s = 2, member_id = 1, session_key = ''PGT-abc123'', creation_date = now\<rparr>]"
  "jobs (revalidated_world now) = [\<lparr>id_j = 1, job_member_id = 1, job_id = ''job-7''\<rparr>]"
  "trace (revalidated_world now) =
     [SessionQuery ''PGT-abc123'', CasGet ''cas/proxy?pgt=PGT-abc123'',
      CasGet ''cas/proxyValidate?ticket=PT-1'', MemberQuery (PStr ''jdoe'')]"
  by (simp_all add: revalidated_world_def)

lemma revalidation_run:
  "validate_proxy (test_env hs (hours24 + 60000000) two_hops) cached_world ''PGT-abc123'' =
     (Inr (Some \<lparr>id_s = 2, member_id = 1, session_key = ''PGT-abc123'',
                 creation_date = hours24 + 60000000\<rparr>),
      revalidated_world (hours24 + 60000000))"
  by (simp add: validate_proxy_def decrypt_test_pgt Let_def session_fresh_def
      cached_world_fields test_env_fields(1,5,6,11) two_hops_first two_hops_second
      two_hops_proxy_ticket start_member_session_def jdoe_attributes
      get_cas_attribute_value_def next_id_def revalidated_world_def)
    (simp add: log_event_def cached_world_def jdoe_def test_env_fields(6))

lemma revalidation_again:
  "sessions (snd (validate_proxy (test_env hs (hours24 + 120000000) two_hops)
      (revalidated_world (hours24 + 60000000)) ''PGT-abc123'')) =
     [\<lparr>id_s = 1, member_id = 1, session_key = ''PGT-abc123'', creation_date = 0\<rparr>,
      \<lparr>id_s = 2, member_id = 1, session_key = ''PGT-abc123'',
        creation_date = hours24 + 60000000\<rparr>,
      \<lparr>id_s = 3, member_id = 1, session_key = ''PGT-abc123'',
        creation_date = hours24 + 120000000\<rparr>]"
  by (simp add: validate_proxy_def decrypt_test_pgt Let_def session_fresh_def
      revalidated_world_fields test_env_fields(1,5,6,11) two_hops_first two_hops_second
      two_hops_proxy_ticket start_member_session_def jdoe_attributes
      get_cas_attribute_value_def next_id_def jdoe_def)

lemma revalidation_again_run:
  "fst (validate_proxy (test_env hs (hours24 + 120000000) two_hops)
      (revalidated_world (hours24 + 60000000)) ''PGT-abc123'') =
     Inr (Some \<lparr>id_s = 3, member_id = 1, session_key = ''PGT-abc123'',
                 creation_date = hours24 + 120000000\<rparr>)"
  "trace (snd (validate_proxy (test_env hs (hours24 + 120000000) two_hops)
      (revalidated_world (hours24 + 60000000)) ''PGT-abc123'')) =
     trace (revalidated_world (hours24 + 60000000)) @
     [SessionQuery ''PGT-abc123'', CasGet ''cas/proxy?pgt=PGT-abc123'',
      CasGet ''cas/proxyValidate?ticket=PT-1'', MemberQuery (PStr ''jdoe'')]"
  by (simp_all add: validate_proxy_def decrypt_test_pgt Let_def session_fresh_def
      revalidated_world_fields test_env_fields(1,5,6,11) two_hops_first two_hops_second
      two_hops_proxy_ticket start_member_session_def jdoe_attributes
      get_cas_attribute_value_def next_id_def jdoe_def)

section \<open>The freshness window of the session cache\<close>

text \<open>
  Claim C1, as amended. Let the raw ticket decrypt to \<open>k\<close> and let the lookup for
  \<open>k\<close> find the session \<open>s\<close>, created at time \<open>T\<close>: the first stored session with
  key \<open>k\<close>, and the only one while no two sessions share a ticket value. When the clock read by the check is before
  \<open>T + 24h\<close>, \<^verbatim>\<open>validate_proxy\<close> returns \<open>s\<close> and nothing but the lookup has
  happened: no request has gone to the identity server. When the clock is at \<open>T + 24h\<close>
  or later, \<open>s\<close> is not returned and the next thing that happens after the lookup is the
  request that validates \<open>k\<close> at the identity server.
\<close>

theorem validate_proxy_cache_window:
  assumes "decrypt_proxy_ticket E ticket = Inr k"
    and "find (\<lambda>s. session_key s = k) (sessions w) = Some s"
  shows "(utcnow E (Suc (length (trace w))) < creation_date s + hours24 \<longrightarrow>
            validate_proxy E w ticket = (Inr (Some s), log_event (SessionQuery k) w)) \<and>
         (creation_date s + hours24 \<le> utcnow E (Suc (length (trace w))) \<longrightarrow>
            fst (validate_proxy E w ticket) \<noteq> Inr (Some s) \<and>
            take (Suc (Suc (length (trace w)))) (trace (snd (validate_proxy E w ticket))) =
              trace w @ [SessionQuery k,
                         CasGet (create_cas_proxy_url E (CAS_SERVER E) (base_url E) k)])"
proof (intro conjI impI)
  assume "utcnow E (Suc (length (trace w))) < creation_date s + hours24"
  with assms show "validate_proxy E w ticket = (Inr (Some s), log_event (SessionQuery k) w)"
    by (rule validate_proxy_hit)
next
  assume old: "creation_date s + hours24 \<le> utcnow E (Suc (length (trace w)))"
  obtain res w' where run: "validate_proxy E w ticket = (res, w')"
    by (cases "validate_proxy E w ticket")
  from old assms(2) have miss:
    "\<not> session_fresh (find (\<lambda>s. session_key s = k) (sessions w))
         (utcnow E (Suc (length (trace w))))"
    by (simp add: session_fresh_def)
  note shape = validate_proxy_miss [OF assms(1) miss run]
  from assms(2) have "s \<in> set (sessions w)"
    by (auto simp: find_Some_iff)
  then have "id_s s < next_id (map id_s (sessions w))"
    by (intro less_next_id) simp
  with shape(3) have "res \<noteq> Inr (Some s)"
    by auto
  then show "fst (validate_proxy E w ticket) \<noteq> Inr (Some s)"
    by (simp add: run)
  from shape(2) show "take (Suc (Suc (length (trace w)))) (trace (snd (validate_proxy E w ticket))) =
      trace w @ [SessionQuery k, CasGet (create_cas_proxy_url E (CAS_SERVER E) (base_url E) k)]"
    by (auto simp: run)
qed

text \<open>At \<open>T + 23h59m\<close> the cached session is returned; at \<open>T + 24h01m\<close> it is not.\<close>

theorem validate_proxy_cache_window_witness:
  "validate_proxy (test_env [] (hours24 - 60000000) two_hops) cached_world ''PGT-abc123'' =
     (Inr (Some \<lparr>id_s = 1, member_id = 1, session_key = ''PGT-abc123'', creation_date = 0\<rparr>),
      log_event (SessionQuery ''PGT-abc123'') cached_world) \<and>
   fst (validate_proxy (test_env [] (hours24 + 60000000) two_hops) cached_world ''PGT-abc123'')
     \<noteq> Inr (Some \<lparr>id_s = 1, member_id = 1, session_key = ''PGT-abc123'', creation_date = 0\<rparr>) \<and>
   take 2 (trace (snd (validate_proxy (test_env [] (hours24 + 60000000) two_hops) cached_world
      ''PGT-abc123''))) = [SessionQuery ''PGT-abc123'', CasGet ''cas/proxy?pgt=PGT-abc123'']"
proof -
  let ?early = "test_env [] (hours24 - 60000000) two_hops"
  let ?late = "test_env [] (hours24 + 60000000) two_hops"
  let ?s = "\<lparr>id_s = 1, member_id = 1, session_key = ''PGT-abc123'', creation_date = 0\<rparr>"
  have found: "find (\<lambda>s. session_key s = ''PGT-abc123'') (sessions cached_world) = Some ?s"
    by (simp add: cached_world_fields)
  have before: "utcnow ?early (Suc (length (trace cached_world))) < creation_date ?s + hours24"
    by (simp add: test_env_fields)
  have after: "creation_date ?s + hours24 \<le> utcnow ?late (Suc (length (trace cached_world)))"
    by (simp add: test_env_fields)
  from validate_proxy_cache_window [OF decrypt_test_pgt found, of ?early] before
  have hit: "validate_proxy ?early cached_world ''PGT-abc123'' =
      (Inr (Some ?s), log_event (SessionQuery ''PGT-abc123'') cached_world)"
    by blast
  from validate_proxy_cache_window [OF decrypt_test_pgt found, of ?late] after
  have miss: "fst (validate_proxy ?late cached_world ''PGT-abc123'') \<noteq> Inr (Some ?s)"
    and calls: "take (Suc (Suc (length (trace cached_world))))
        (trace (snd (validate_proxy ?late cached_world ''PGT-abc123''))) =
      trace cached_world @ [SessionQuery ''PGT-abc123'',
        CasGet (create_cas_proxy_url ?late (CAS_SERVER ?late) (base_url ?late) ''PGT-abc123'')]"
    by blast+
  from calls have "take 2 (trace (snd (validate_proxy ?late cached_world ''PGT-abc123''))) =
      [SessionQuery ''PGT-abc123'', CasGet ''cas/proxy?pgt=PGT-abc123'']"
    by (simp add: test_env_fields cached_world_fields numeral_2_eq_2)
  with hit miss show ?thesis
    by blast
qed

text \<open>
  Claim C1 as stated fails for a session that is not the first one stored under its ticket
  value. After a ticket has been validated again at \<open>24h01m\<close>, the store holds the
  expired session and a new one; a minute later the new session is one minute old, and
  yet the call does not return it: the lookup finds the expired session, both requests go
  to the identity server and a third session is returned.
\<close>

theorem fresh_session_shadowed_counterexample:
  "\<lparr>id_s = 2, member_id = 1, session_key = ''PGT-abc123'', creation_date = hours24 + 60000000\<rparr>
     \<in> set (sessions (snd (validate_proxy (test_env [] (hours24 + 60000000) two_hops)
                              cached_world ''PGT-abc123''))) \<and>
   decrypt_proxy_ticket (test_env [] (hours24 + 120000000) two_hops) ''PGT-abc123'' =
     Inr ''PGT-abc123'' \<and>
   utcnow (test_env [] (hours24 + 120000000) two_hops)
       (Suc (length (trace (snd (validate_proxy (test_env [] (hours24 + 60000000) two_hops)
                                   cached_world ''PGT-abc123''))))) <
     (hours24 + 60000000) + hours24 \<and>
   fst (validate_proxy (test_env [] (hours24 + 120000000) two_hops)
          (snd (validate_proxy (test_env [] (hours24 + 60000000) two_hops) cached_world
                  ''PGT-abc123''))
          ''PGT-abc123'') =
     Inr (Some \<lparr>id_s = 3, member_id = 1, session_key = ''PGT-abc123'',
                 creation_date = hours24 + 120000000\<rparr>) \<and>
   trace (snd (validate_proxy (test_env [] (hours24 + 120000000) two_hops)
          (snd (validate_proxy (test_env [] (hours24 + 60000000) two_hops) cached_world
                  ''PGT-abc123''))
          ''PGT-abc123'')) =
     trace (snd (validate_proxy (test_env [] (hours24 + 60000000) two_hops) cached_world
                  ''PGT-abc123'')) @
     [SessionQuery ''PGT-abc123'', CasGet ''cas/proxy?pgt=PGT-abc123'',
      CasGet ''cas/proxyValidate?ticket=PT-1'', MemberQuery (PStr ''jdoe'')]"
proof -
  have stored: "\<lparr>id_s = 2, member_id = 1, session_key = ''PGT-abc123'',
        creation_date = hours24 + 60000000\<rparr>
      \<in> set (sessions (revalidated_world (hours24 + 60000000)))"
    by (simp add: revalidated_world_fields)
  have young: "utcnow (test_env [] (hours24 + 120000000) two_hops)
        (Suc (length (trace (revalidated_world (hours24 + 60000000))))) <
      (hours24 + 60000000) + hours24"
    by (simp add: test_env_fields hours24_def)
  show ?thesis
    unfolding revalidation_run snd_conv
    using stored young decrypt_test_pgt revalidation_again_run [of "[]"]
    by blast
qed

section \<open>The ticket decryptor: passing through and failing\<close>




section \<open>A ticket that decrypts to the empty string\<close>




section \<open>The outcomes of the identity-server client\<close>





section \<open>Answers with missing fields\<close>

text \<open>
  Claim C4 does not hold of the code. A first answer with a proxy-success marker and no
  proxy ticket makes \<^verbatim>\<open>validate_proxy\<close> raise \<^verbatim>\<open>TypeError\<close>, and a second answer
  with a success marker and no authentication-success node makes it raise
  \<^verbatim>\<open>KeyError\<close>, where the claim has it return \<^verbatim>\<open>None\<close>.
\<close>

theorem validate_proxy_missing_field_raises:
  "fst (validate_proxy (test_env [] 0 [(''cas/proxy?pgt=PGT-abc123'', empty_proxy_success_doc)])
          empty_world ''PGT-abc123'') = Inl TypeError \<and>
   fst (validate_proxy
          (test_env [] 0 [(''cas/proxy?pgt=PGT-abc123'', proxy_success_doc),
                          (''cas/proxyValidate?ticket=PT-1'', proxy_success_doc)])
          empty_world ''PGT-abc123'') = Inl KeyError"
proof -
  have "fst (validate_proxy (test_env [] 0 [(''cas/proxy?pgt=PGT-abc123'', empty_proxy_success_doc)])
          empty_world ''PGT-abc123'') = Inl TypeError"
    by (simp add: validate_proxy_def decrypt_test_pgt Let_def session_fresh_def empty_world_def
        test_env_fields validate_cas_request_def success_marker_present_def
        empty_proxy_success_doc_def proxy_ticket_of_def bind_exn_def)
  moreover have "fst (validate_proxy
          (test_env [] 0 [(''cas/proxy?pgt=PGT-abc123'', proxy_success_doc),
                          (''cas/proxyValidate?ticket=PT-1'', proxy_success_doc)])
          empty_world ''PGT-abc123'') = Inl KeyError"
    by (simp add: validate_proxy_def decrypt_test_pgt Let_def session_fresh_def empty_world_def
        test_env_fields validate_cas_request_def success_marker_present_def
        proxy_success_doc_def proxy_ticket_of_def bind_exn_def start_member_session_def
        session_attributes_def)
  ultimately show ?thesis
    by blast
qed

section \<open>The session store\<close>

text \<open>
  Claim C6, as amended. No operation changes or removes a session row.
  \<^verbatim>\<open>validate_proxy\<close> either leaves the session table as it was or appends one row, keyed
  by the decrypted ticket, which is the session it returns; while the session found for the
  ticket is fresh it appends nothing. When no two rows share a ticket value and the
  decrypted ticket has no row yet, no two rows share a ticket value afterwards.
  \<^verbatim>\<open>validate_dps_job\<close> and \<^verbatim>\<open>validate_bearer\<close> leave the session table as it was.
\<close>

theorem sessions_append_only:
  assumes dec: "decrypt_proxy_ticket E ticket = Inr k"
  shows "(sessions (snd (validate_proxy E w ticket)) = sessions w \<or>
          (\<exists>ms. fst (validate_proxy E w ticket) = Inr (Some ms) \<and>
                sessions (snd (validate_proxy E w ticket)) = sessions w @ [ms] \<and>
                session_key ms = k)) \<and>
         (one_session_per_ticket w \<longrightarrow> k \<notin> set (map session_key (sessions w)) \<longrightarrow>
            one_session_per_ticket (snd (validate_proxy E w ticket))) \<and>
         (session_fresh (find (\<lambda>s. session_key s = k) (sessions w))
              (utcnow E (Suc (length (trace w)))) \<longrightarrow>
            sessions (snd (validate_proxy E w ticket)) = sessions w) \<and>
         sessions (snd (validate_dps_job E w dps_token jid)) = sessions w \<and>
         sessions (snd (validate_bearer E w token)) = sessions w"
proof -
  obtain res w' where run: "validate_proxy E w ticket = (res, w')"
    by (cases "validate_proxy E w ticket")
  note app = validate_proxy_sessions [OF dec run]
  have a: "sessions (snd (validate_proxy E w ticket)) = sessions w \<or>
          (\<exists>ms. fst (validate_proxy E w ticket) = Inr (Some ms) \<and>
                sessions (snd (validate_proxy E w ticket)) = sessions w @ [ms] \<and>
                session_key ms = k)"
    using app by (auto simp: run)
  have b: "one_session_per_ticket w \<longrightarrow> k \<notin> set (map session_key (sessions w)) \<longrightarrow>
            one_session_per_ticket (snd (validate_proxy E w ticket))"
    using app by (auto simp: run one_session_per_ticket_def)
  have c: "session_fresh (find (\<lambda>s. session_key s = k) (sessions w))
              (utcnow E (Suc (length (trace w)))) \<longrightarrow>
            sessions (snd (validate_proxy E w ticket)) = sessions w"
    using dec by (simp add: validate_proxy_def Let_def)
  have d: "sessions (snd (validate_dps_job E w dps_token jid)) = sessions w"
    by (simp add: validate_dps_job_def Let_def split: option.splits)
  have e: "sessions (snd (validate_bearer E w token)) = sessions w"
    by (simp add: validate_bearer_def Let_def split: sum.splits prod.splits)
  from a b c d e show ?thesis
    by blast
qed

text \<open>A first validation into an empty store, and a cache hit.\<close>

theorem sessions_append_only_witness:
  "one_session_per_ticket
     (snd (validate_proxy (test_env [] 0 two_hops) empty_world ''PGT-abc123'')) \<and>
   sessions (snd (validate_proxy (test_env [] (hours24 - 60000000) two_hops) cached_world
     ''PGT-abc123'')) = sessions cached_world"
proof -
  let ?early = "test_env [] (hours24 - 60000000) two_hops"
  have inv: "one_session_per_ticket empty_world"
    by (simp add: one_session_per_ticket_def empty_world_def)
  have new: "''PGT-abc123'' \<notin> set (map session_key (sessions empty_world))"
    by (simp add: empty_world_def)
  have fresh: "session_fresh (find (\<lambda>s. session_key s = ''PGT-abc123'') (sessions cached_world))
      (utcnow ?early (Suc (length (trace cached_world))))"
    by (simp add: session_fresh_def cached_world_fields test_env_fields)
  from sessions_append_only [OF decrypt_test_pgt, of "test_env [] 0 two_hops" empty_world] inv new
  have "one_session_per_ticket
      (snd (validate_proxy (test_env [] 0 two_hops) empty_world ''PGT-abc123''))"
    by blast
  moreover from sessions_append_only [OF decrypt_test_pgt, of ?early cached_world] fresh
  have "sessions (snd (validate_proxy ?early cached_world ''PGT-abc123'')) = sessions cached_world"
    by blast
  ultimately show ?thesis
    by blast
qed

text \<open>
  Claim C6 as stated fails: validating a ticket again after its session has expired leaves
  two sessions under the same ticket value. The lookup goes on finding the expired one, so
  that the next call a minute later validates again and leaves two live sessions under the
  same ticket value.
\<close>

theorem second_session_counterexample:
  "one_session_per_ticket cached_world \<and>
   \<not> one_session_per_ticket
       (snd (validate_proxy (test_env [] (hours24 + 60000000) two_hops) cached_world
               ''PGT-abc123'')) \<and>
   \<not> one_live_session_per_ticket (hours24 + 120000000)
       (snd (validate_proxy (test_env [] (hours24 + 120000000) two_hops)
          (snd (validate_proxy (test_env [] (hours24 + 60000000) two_hops) cached_world
                  ''PGT-abc123''))
          ''PGT-abc123''))"
proof -
  have "one_session_per_ticket cached_world"
    by (simp add: one_session_per_ticket_def cached_world_fields)
  moreover have "\<not> one_session_per_ticket
       (snd (validate_proxy (test_env [] (hours24 + 60000000) two_hops) cached_world
               ''PGT-abc123''))"
    by (simp add: revalidation_run one_session_per_ticket_def revalidated_world_fields)
  moreover have "\<not> one_live_session_per_ticket (hours24 + 120000000)
       (snd (validate_proxy (test_env [] (hours24 + 120000000) two_hops)
          (revalidated_world (hours24 + 60000000)) ''PGT-abc123''))"
    unfolding one_live_session_per_ticket_def live_sessions_def revalidation_again
    by (simp add: hours24_def)
  ultimately show ?thesis
    by (simp add: revalidation_run)
qed

section \<open>Creating and updating the member\<close>

lemma get_cas_attribute_value_dict:
  "get_cas_attribute_value (PDict attrs) key = Inr (attribute_or_empty attrs key)"
proof (cases "map_of attrs (''cas:'' @ key)")
  case None
  then have "''cas:'' @ key \<notin> fst ` set attrs"
    by (simp add: map_of_eq_None_iff)
  with None show ?thesis
    by (simp add: get_cas_attribute_value_def attribute_or_empty_def)
next
  case (Some v)
  then have "''cas:'' @ key \<in> fst ` set attrs"
    by (metis map_of_eq_None_iff option.distinct(1))
  moreover from this have "attrs \<noteq> []"
    by auto
  ultimately show ?thesis
    using Some by (simp add: get_cas_attribute_value_def attribute_or_empty_def)
qed

lemma update_first_split:
  "find P xs = Some m \<Longrightarrow>
     \<exists>pre post. xs = pre @ m # post \<and> (\<forall>x \<in> set pre. \<not> P x) \<and>
       update_first P f xs = pre @ f m # post"
proof (induction xs)
  case Nil
  then show ?case by simp
next
  case (Cons x xs)
  show ?case
  proof (cases "P x")
    case True
    with Cons.prems have "x = m" by simp
    with True have "x # xs = [] @ m # xs \<and> (\<forall>y \<in> set []. \<not> P y) \<and>
        update_first P f (x # xs) = [] @ f m # xs"
      by simp
    then show ?thesis by blast
  next
    case False
    with Cons.prems have "find P xs = Some m" by simp
    from Cons.IH [OF this] obtain pre post where
      "xs = pre @ m # post" "\<forall>y \<in> set pre. \<not> P y" "update_first P f xs = pre @ f m # post"
      by blast
    with False have "x # xs = (x # pre) @ m # post \<and> (\<forall>y \<in> set (x # pre). \<not> P y) \<and>
        update_first P f (x # xs) = (x # pre) @ f m # post"
      by simp
    then show ?thesis by blast
  qed
qed

lemma start_member_session_members:
  assumes attrs: "session_attributes doc = Inr (PDict attrs)"
  shows "\<exists>ms w'. start_member_session E w (b, doc) k = (Inr ms, w') \<and>
     members w' =
       (case find (\<lambda>m. username m = attribute_or_empty attrs ''preferred_username'') (members w) of
          None \<Rightarrow> members w @ [member_from (next_id (map id_m (members w))) attrs]
        | Some m \<Rightarrow>
            update_first (\<lambda>m. username m = attribute_or_empty attrs ''preferred_username'')
              (\<lambda>m. m\<lparr>urs_token := attribute_or_empty attrs ''access_token''\<rparr>) (members w))"
  using attrs
  by (simp add: start_member_session_def get_cas_attribute_value_dict Let_def new_member_def
      bind_exn_def member_from_def split: option.splits)

text \<open>
  Claim C7. Let the cache miss, let both requests to the identity server succeed and let
  the attributes node of the second answer be a dictionary (the empty one when the node is
  absent). Then \<^verbatim>\<open>validate_proxy\<close> returns a session keyed by the decrypted ticket.
  When no member has the extracted user name, the member table grows by exactly one row,
  built from the attributes. When a member has it, the table keeps its rows: the first
  row with that user name gets the new access token and nothing else changes. An
  attribute that is absent is the empty string, not an error.
\<close>

theorem validate_proxy_principal_upsert:
  assumes dec: "decrypt_proxy_ticket E ticket = Inr k"
    and miss: "\<not> session_fresh (find (\<lambda>s. session_key s = k) (sessions w))
                 (utcnow E (Suc (length (trace w))))"
    and hop1: "fst (validate_cas_request E (log_event (SessionQuery k) w)
                 (create_cas_proxy_url E (CAS_SERVER E) (base_url E) k)) = Inr (True, doc1)"
    and pt: "bind_exn (proxy_ticket_of doc1)
               (create_cas_proxy_validate_url E (CAS_SERVER E) (base_url E)) = Inr url2"
    and hop2: "fst (validate_cas_request E
                 (log_event (CasGet (create_cas_proxy_url E (CAS_SERVER E) (base_url E) k))
                    (log_event (SessionQuery k) w)) url2) = Inr (True, doc2)"
    and attrs: "session_attributes doc2 = Inr (PDict attrs)"
  shows "(\<exists>ms. fst (validate_proxy E w ticket) = Inr (Some ms) \<and> session_key ms = k) \<and>
    (find (\<lambda>m. username m = attribute_or_empty attrs ''preferred_username'') (members w) = None \<longrightarrow>
       members (snd (validate_proxy E w ticket)) =
         members w @ [member_from (next_id (map id_m (members w))) attrs]) \<and>
    (\<forall>m. find (\<lambda>m. username m = attribute_or_empty attrs ''preferred_username'') (members w)
           = Some m \<longrightarrow>
       (\<exists>pre post. members w = pre @ m # post \<and>
          (\<forall>x \<in> set pre. username x \<noteq> attribute_or_empty attrs ''preferred_username'') \<and>
          members (snd (validate_proxy E w ticket)) =
            pre @ m\<lparr>urs_token := attribute_or_empty attrs ''access_token''\<rparr> # post)) \<and>
    (\<forall>key. ''cas:'' @ key \<notin> set (map fst attrs) \<longrightarrow>
       get_cas_attribute_value (PDict attrs) key = Inr (PStr []))"
proof -
  let ?usr = "attribute_or_empty attrs ''preferred_username''"
  let ?tok = "attribute_or_empty attrs ''access_token''"
  let ?w1 = "log_event (SessionQuery k) w"
  let ?url1 = "create_cas_proxy_url E (CAS_SERVER E) (base_url E) k"
  let ?w2 = "log_event (CasGet ?url1) ?w1"
  let ?w3 = "log_event (CasGet url2) ?w2"
  from hop1 have h1: "validate_cas_request E ?w1 ?url1 = (Inr (True, doc1), ?w2)"
    by (rule validate_cas_request_success)
  from hop2 have h2: "validate_cas_request E ?w2 url2 = (Inr (True, doc2), ?w3)"
    by (rule validate_cas_request_success)
  have m3: "members ?w3 = members w"
    by simp
  from start_member_session_members [OF attrs, of E ?w3 True k, unfolded m3]
  obtain ms w' where sms: "start_member_session E ?w3 (True, doc2) k = (Inr ms, w')"
    and mem: "members w' =
       (case find (\<lambda>m. username m = ?usr) (members w) of
          None \<Rightarrow> members w @ [member_from (next_id (map id_m (members w))) attrs]
        | Some m \<Rightarrow> update_first (\<lambda>m. username m = ?usr) (\<lambda>m. m\<lparr>urs_token := ?tok\<rparr>) (members w))"
    by auto
  from dec miss h1 pt h2 sms
  have run: "validate_proxy E w ticket = (Inr (Some ms), w')"
    by (simp add: validate_proxy_def Let_def)
  from start_member_session_shape(3) [OF sms] have key: "session_key ms = k"
    by simp
  have a: "\<exists>ms. fst (validate_proxy E w ticket) = Inr (Some ms) \<and> session_key ms = k"
    using run key by simp
  have b: "find (\<lambda>m. username m = ?usr) (members w) = None \<longrightarrow>
       members (snd (validate_proxy E w ticket)) =
         members w @ [member_from (next_id (map id_m (members w))) attrs]"
    using run mem by simp
  have c: "\<forall>m. find (\<lambda>m. username m = ?usr) (members w) = Some m \<longrightarrow>
       (\<exists>pre post. members w = pre @ m # post \<and> (\<forall>x \<in> set pre. username x \<noteq> ?usr) \<and>
          members (snd (validate_proxy E w ticket)) = pre @ m\<lparr>urs_token := ?tok\<rparr> # post)"
  proof (intro allI impI)
    fix m
    assume found: "find (\<lambda>m. username m = ?usr) (members w) = Some m"
    from update_first_split [OF found, of "\<lambda>m. m\<lparr>urs_token := ?tok\<rparr>"]
    obtain pre post where "members w = pre @ m # post"
      and "\<forall>x \<in> set pre. username x \<noteq> ?usr"
      and "update_first (\<lambda>m. username m = ?usr) (\<lambda>m. m\<lparr>urs_token := ?tok\<rparr>) (members w) =
           pre @ m\<lparr>urs_token := ?tok\<rparr> # post"
      by blast
    moreover from run mem found
    have "members (snd (validate_proxy E w ticket)) =
        update_first (\<lambda>m. username m = ?usr) (\<lambda>m. m\<lparr>urs_token := ?tok\<rparr>) (members w)"
      by simp
    ultimately show "\<exists>pre post. members w = pre @ m # post \<and>
        (\<forall>x \<in> set pre. username x \<noteq> ?usr) \<and>
        members (snd (validate_proxy E w ticket)) = pre @ m\<lparr>urs_token := ?tok\<rparr> # post"
      by auto
  qed
  have d: "\<forall>key. ''cas:'' @ key \<notin> set (map fst attrs) \<longrightarrow>
       get_cas_attribute_value (PDict attrs) key = Inr (PStr [])"
    by (auto simp: get_cas_attribute_value_dict attribute_or_empty_def
        split: option.splits dest: map_of_SomeD intro: rev_image_eqI)
  from a b c d show ?thesis
    by blast
qed

text \<open>The user \<open>jdoe\<close> validated into an empty store, and again into a store that has that user name.\<close>

theorem validate_proxy_principal_upsert_witness:
  "members (snd (validate_proxy (test_env [] 0 two_hops) empty_world ''PGT-abc123'')) =
     [\<lparr>id_m = 1, first_name = PStr [], last_name = PStr [], username = PStr ''jdoe'',
       email = PStr [], organization = PStr [], urs_token = PStr ''tok1''\<rparr>] \<and>
   members (snd (validate_proxy (test_env [] (hours24 + 60000000) two_hops) cached_world
     ''PGT-abc123'')) = [jdoe\<lparr>urs_token := PStr ''tok1''\<rparr>] \<and>
   get_cas_attribute_value
     (PDict [(''cas:preferred_username'', PStr ''jdoe''), (''cas:access_token'', PStr ''tok1'')])
     ''email'' = Inr (PStr [])"
proof -
  let ?E = "test_env [] 0 two_hops"
  let ?L = "test_env [] (hours24 + 60000000) two_hops"
  let ?attrs = "[(''cas:preferred_username'', PStr ''jdoe''), (''cas:access_token'', PStr ''tok1'')]"
  have miss: "\<not> session_fresh (find (\<lambda>s. session_key s = ''PGT-abc123'') (sessions empty_world))
      (utcnow ?E (Suc (length (trace empty_world))))"
    by (simp add: session_fresh_def empty_world_def)
  have old: "\<not> session_fresh (find (\<lambda>s. session_key s = ''PGT-abc123'') (sessions cached_world))
      (utcnow ?L (Suc (length (trace cached_world))))"
    by (simp add: session_fresh_def cached_world_fields test_env_fields)
  have hop1: "fst (validate_cas_request (test_env [] now two_hops) (log_event (SessionQuery ''PGT-abc123'') w)
      (create_cas_proxy_url (test_env [] now two_hops) (CAS_SERVER (test_env [] now two_hops))
         (base_url (test_env [] now two_hops)) ''PGT-abc123'')) =
      Inr (True, proxy_success_doc)" for now w
    by (simp add: test_env_first_url two_hops_first)
  have pt: "bind_exn (proxy_ticket_of proxy_success_doc)
      (create_cas_proxy_validate_url (test_env [] now two_hops) (CAS_SERVER (test_env [] now two_hops))
         (base_url (test_env [] now two_hops))) =
      Inr ''cas/proxyValidate?ticket=PT-1''" for now
    using two_hops_proxy_ticket [of "[]" now two_hops] by (simp add: test_env_fields)
  have hop2: "fst (validate_cas_request (test_env [] now two_hops)
      (log_event (CasGet (create_cas_proxy_url (test_env [] now two_hops)
           (CAS_SERVER (test_env [] now two_hops)) (base_url (test_env [] now two_hops))
           ''PGT-abc123''))
         (log_event (SessionQuery ''PGT-abc123'') w)) ''cas/proxyValidate?ticket=PT-1'') =
      Inr (True, authentication_success_doc)" for now w
    by (simp add: two_hops_second)
  have unseen: "find (\<lambda>m. username m = attribute_or_empty ?attrs ''preferred_username'')
      (members empty_world) = None"
    by (simp add: empty_world_def)
  have seen: "find (\<lambda>m. username m = attribute_or_empty ?attrs ''preferred_username'')
      (members cached_world) = Some jdoe"
    by (simp add: cached_world_fields attribute_or_empty_def jdoe_def)
  have absent: "''cas:'' @ ''email'' \<notin> set (map fst ?attrs)"
    by simp
  from validate_proxy_principal_upsert [OF decrypt_test_pgt miss hop1 pt hop2 jdoe_attributes]
    unseen
  have "members (snd (validate_proxy ?E empty_world ''PGT-abc123'')) =
      members empty_world @ [member_from (next_id (map id_m (members empty_world))) ?attrs]"
    by blast
  then have first: "members (snd (validate_proxy ?E empty_world ''PGT-abc123'')) =
      [\<lparr>id_m = 1, first_name = PStr [], last_name = PStr [], username = PStr ''jdoe'',
        email = PStr [], organization = PStr [], urs_token = PStr ''tok1''\<rparr>]"
    by (simp add: empty_world_def member_from_def attribute_or_empty_def next_id_def)
  from validate_proxy_principal_upsert [OF decrypt_test_pgt old hop1 pt hop2 jdoe_attributes]
    seen
  obtain pre post where "members cached_world = pre @ jdoe # post"
    and "members (snd (validate_proxy ?L cached_world ''PGT-abc123'')) =
      pre @ jdoe\<lparr>urs_token := attribute_or_empty ?attrs ''access_token''\<rparr> # post"
    by blast
  then have second: "members (snd (validate_proxy ?L cached_world ''PGT-abc123'')) =
      [jdoe\<lparr>urs_token := PStr ''tok1''\<rparr>]"
    by (auto simp: cached_world_fields attribute_or_empty_def Cons_eq_append_conv)
  from validate_proxy_principal_upsert [OF decrypt_test_pgt miss hop1 pt hop2 jdoe_attributes]
    absent
  have third: "get_cas_attribute_value (PDict ?attrs) ''email'' = Inr (PStr [])"
    by blast
  from first second third show ?thesis
    by blast
qed

section \<open>The order of the schemes\<close>

text \<open>
  Claim C8. When the request carries a proxy ticket and \<^verbatim>\<open>validate_proxy\<close> returns a
  session, \<^verbatim>\<open>get_authorized_user\<close> returns the member of that session in the world
  that \<^verbatim>\<open>validate_proxy\<close> left, whatever the Authorization header says: no request to
  the profile endpoint has been made.
\<close>

theorem get_authorized_user_proxy_first:
  assumes hdr: "headers E ''proxy-ticket'' = Some t"
    and ok: "validate_proxy E w t = (Inr (Some s), w')"
  shows "get_authorized_user E w = (Inr (map_option PMember (member_of w' (member_id s))), w') \<and>
         (\<exists>evs. trace (snd (get_authorized_user E w)) = trace w @ evs \<and>
                (\<forall>e \<in> set evs. \<not> is_remote_profile e))"
proof -
  from hdr ok
  have run: "get_authorized_user E w =
      (Inr (map_option PMember (member_of w' (member_id s))), w')"
    by (simp add: get_authorized_user_def)
  with validate_proxy_no_profile [OF ok] show ?thesis
    by simp
qed

text \<open>
  A request with both headers and a cached session; without the proxy ticket the same
  request does go to the profile endpoint.
\<close>

theorem get_authorized_user_proxy_first_witness:
  "get_authorized_user
     (test_env [(''proxy-ticket'', ''PGT-abc123''), (''Authorization'', ''Bearer good'')]
        (hours24 - 60000000) two_hops) cached_world =
     (Inr (Some (PMember jdoe)), log_event (SessionQuery ''PGT-abc123'') cached_world) \<and>
   trace (snd (get_authorized_user
     (test_env [(''Authorization'', ''Bearer good'')] (hours24 - 60000000) two_hops)
     cached_world)) = [ProfileGet ''cas/oauth2.0/profile'' ''good'']"
proof -
  let ?E = "test_env [(''proxy-ticket'', ''PGT-abc123''), (''Authorization'', ''Bearer good'')]
        (hours24 - 60000000) two_hops"
  let ?s = "\<lparr>id_s = 1, member_id = 1, session_key = ''PGT-abc123'', creation_date = 0\<rparr>"
  have hdr: "headers ?E ''proxy-ticket'' = Some ''PGT-abc123''"
    by (simp add: test_env_fields)
  have found: "find (\<lambda>s. session_key s = ''PGT-abc123'') (sessions cached_world) = Some ?s"
    by (simp add: cached_world_fields)
  have before: "utcnow ?E (Suc (length (trace cached_world))) < creation_date ?s + hours24"
    by (simp add: test_env_fields)
  have ok: "validate_proxy ?E cached_world ''PGT-abc123'' =
      (Inr (Some ?s), log_event (SessionQuery ''PGT-abc123'') cached_world)"
    using decrypt_test_pgt found before by (rule validate_proxy_hit)
  from get_authorized_user_proxy_first [OF hdr ok]
  have "get_authorized_user ?E cached_world =
      (Inr (map_option PMember
         (member_of (log_event (SessionQuery ''PGT-abc123'') cached_world) (member_id ?s))),
       log_event (SessionQuery ''PGT-abc123'') cached_world)"
    by blast
  then have first: "get_authorized_user ?E cached_world =
      (Inr (Some (PMember jdoe)), log_event (SessionQuery ''PGT-abc123'') cached_world)"
    by (simp add: member_of_def cached_world_fields jdoe_def)
  have second: "trace (snd (get_authorized_user
     (test_env [(''Authorization'', ''Bearer good'')] (hours24 - 60000000) two_hops)
     cached_world)) = [ProfileGet ''cas/oauth2.0/profile'' ''good'']"
    by (simp add: get_authorized_user_def test_env_fields py_split_def py_index_def is_space_def
        validate_bearer_def Let_def cached_world_fields)
  from first second show ?thesis
    by blast
qed

section \<open>The machine-token validator: secret and job\<close>

text \<open>
  Claim C10. A token other than the configured secret gives \<^verbatim>\<open>None\<close> and leaves the
  world as it was, whatever the job id: no remote call and no query. With the secret, the
  job table is queried once; the result is \<^verbatim>\<open>None\<close> when no row has the job id, and
  the member of the first such row otherwise. While every job row refers to a stored
  member, a member is returned exactly when the job id has a row.
\<close>

theorem validate_dps_job_spec:
  "(dps_token \<noteq> DPS_MACHINE_TOKEN E \<longrightarrow> validate_dps_job E w dps_token jid = (None, w)) \<and>
   (dps_token = DPS_MACHINE_TOKEN E \<longrightarrow>
      (find (\<lambda>j. job_id j = jid) (jobs w) = None \<longrightarrow>
         validate_dps_job E w dps_token jid = (None, log_event (JobQuery jid) w)) \<and>
      (\<forall>j. find (\<lambda>j. job_id j = jid) (jobs w) = Some j \<longrightarrow>
         validate_dps_job E w dps_token jid =
           (member_of w (job_member_id j), log_event (JobQuery jid) w)) \<and>
      ((\<forall>j \<in> set (jobs w). member_of w (job_member_id j) \<noteq> None) \<longrightarrow>
         (fst (validate_dps_job E w dps_token jid) \<noteq> None) =
         (find (\<lambda>j. job_id j = jid) (jobs w) \<noteq> None)))"
proof -
  have owner: "fst (validate_dps_job E w dps_token jid) \<noteq> None"
    if secret: "dps_token = DPS_MACHINE_TOKEN E"
      and integrity: "\<forall>j \<in> set (jobs w). member_of w (job_member_id j) \<noteq> None"
      and found: "find (\<lambda>j. job_id j = jid) (jobs w) = Some j" for j
  proof -
    from found have "j \<in> set (jobs w)"
      by (auto simp: find_Some_iff)
    with integrity have "member_of w (job_member_id j) \<noteq> None"
      by blast
    with secret found show ?thesis
      by (simp add: validate_dps_job_def Let_def)
  qed
  have absent: "fst (validate_dps_job E w dps_token jid) = None"
    if "find (\<lambda>j. job_id j = jid) (jobs w) = None"
    using that by (simp add: validate_dps_job_def Let_def)
  have "(fst (validate_dps_job E w dps_token jid) \<noteq> None) =
        (find (\<lambda>j. job_id j = jid) (jobs w) \<noteq> None)"
    if "dps_token = DPS_MACHINE_TOKEN E"
      and "\<forall>j \<in> set (jobs w). member_of w (job_member_id j) \<noteq> None"
    using that owner absent by (cases "find (\<lambda>j. job_id j = jid) (jobs w)") auto
  then show ?thesis
    by (simp add: validate_dps_job_def Let_def)
qed

text \<open>A wrong token with a known job, the secret with an unknown job, the secret with a known job.\<close>

theorem validate_dps_job_spec_witness:
  "validate_dps_job (test_env [] 0 []) cached_world ''guess'' ''job-7'' = (None, cached_world) \<and>
   validate_dps_job (test_env [] 0 []) cached_world ''s3cret'' ''job-8'' =
     (None, log_event (JobQuery ''job-8'') cached_world) \<and>
   validate_dps_job (test_env [] 0 []) cached_world ''s3cret'' ''job-7'' =
     (Some jdoe, log_event (JobQuery ''job-7'') cached_world) \<and>
   (fst (validate_dps_job (test_env [] 0 []) cached_world ''s3cret'' ''job-7'') \<noteq> None) =
     (find (\<lambda>j. job_id j = ''job-7'') (jobs cached_world) \<noteq> None)"
proof -
  let ?E = "test_env [] 0 []"
  have wrong: "''guess'' \<noteq> DPS_MACHINE_TOKEN ?E"
    and secret: "''s3cret'' = DPS_MACHINE_TOKEN ?E"
    by (simp_all add: test_env_fields)
  have unknown: "find (\<lambda>j. job_id j = ''job-8'') (jobs cached_world) = None"
    and known: "find (\<lambda>j. job_id j = ''job-7'') (jobs cached_world) =
      Some \<lparr>id_j = 1, job_member_id = 1, job_id = ''job-7''\<rparr>"
    by (simp_all add: cached_world_fields)
  have integrity: "\<forall>j \<in> set (jobs cached_world). member_of cached_world (job_member_id j) \<noteq> None"
    by (simp add: cached_world_fields member_of_def jdoe_def)
  have owner: "member_of cached_world
      (job_member_id \<lparr>id_j = 1, job_member_id = 1, job_id = ''job-7''\<rparr>) = Some jdoe"
    by (simp add: cached_world_fields member_of_def jdoe_def)
  from validate_dps_job_spec [of "''guess''" ?E cached_world "''job-7''"] wrong
  have a: "validate_dps_job ?E cached_world ''guess'' ''job-7'' = (None, cached_world)"
    by blast
  from validate_dps_job_spec [of "''s3cret''" ?E cached_world "''job-8''"] secret unknown
  have b: "validate_dps_job ?E cached_world ''s3cret'' ''job-8'' =
      (None, log_event (JobQuery ''job-8'') cached_world)"
    by blast
  from validate_dps_job_spec [of "''s3cret''" ?E cached_world "''job-7''"] secret known
  have "validate_dps_job ?E cached_world ''s3cret'' ''job-7'' =
      (member_of cached_world (job_member_id \<lparr>id_j = 1, job_member_id = 1, job_id = ''job-7''\<rparr>),
       log_event (JobQuery ''job-7'') cached_world)"
    by blast
  then have c: "validate_dps_job ?E cached_world ''s3cret'' ''job-7'' =
      (Some jdoe, log_event (JobQuery ''job-7'') cached_world)"
    by (simp only: owner)
  from validate_dps_job_spec [of "''s3cret''" ?E cached_world "''job-7''"] secret integrity
  have d: "(fst (validate_dps_job ?E cached_world ''s3cret'' ''job-7'') \<noteq> None) =
      (find (\<lambda>j. job_id j = ''job-7'') (jobs cached_world) \<noteq> None)"
    by blast
  from a b c d show ?thesis
    by blast
qed

section \<open>The guards\<close>

text \<open>
  What the two guards do when nothing raises: the guard of \<^verbatim>\<open>dps_authorized\<close> runs the
  handler when both headers are present, the token is the secret and the job has an owner,
  and rejects otherwise; the guard of \<^verbatim>\<open>login_required\<close> runs the handler when the proxy
  ticket gives a session, and rejects a request with neither header.
\<close>

lemma dps_authorized_wrap_outcomes:
  "dps_authorized_wrap wrapped_function E w =
     (case (headers E ''dps-machine-token'', headers E ''dps-job-id'') of
        (Some tok, Some jid) \<Rightarrow>
          (case validate_dps_job E w tok jid of
             (Some authorized, w1) \<Rightarrow> wrapped_function w1
           | (None, w1) \<Rightarrow> (Inl not_authorized, w1))
      | _ \<Rightarrow> (Inl not_authorized, w))"
  by (simp add: dps_authorized_wrap_def is_valid_dps_request_def header_def
      split: option.splits)

lemma login_required_wrap_proxy:
  "headers E ''proxy-ticket'' = Some t \<Longrightarrow> validate_proxy E w t = (Inr (Some s), w1) \<Longrightarrow>
     login_required_wrap wrapped_function E w = wrapped_function w1"
  by (simp add: login_required_wrap_def)

lemma login_required_wrap_no_header:
  "headers E ''proxy-ticket'' = None \<Longrightarrow> headers E ''Authorization'' = None \<Longrightarrow>
     login_required_wrap wrapped_function E w = (Inl not_authorized, w)"
  by (simp add: login_required_wrap_def)

text \<open>
  Claim C3 does not hold of the code. Both decorators return \<^verbatim>\<open>None\<close> in place of the
  guard they define, and the guard of \<^verbatim>\<open>login_required\<close> itself raises
  \<^verbatim>\<open>IndexError\<close>, not the 403 rejection, for an Authorization header of one word.
\<close>

theorem login_required_returns_none:
  "login_required wrapped_function = None \<and>
   dps_authorized wrapped_function = None \<and>
   fst (login_required_wrap wrapped_function (test_env [(''Authorization'', ''Bearer'')] 0 [])
          empty_world) = Inl IndexError"
  by (simp add: login_required_def dps_authorized_def login_required_wrap_def test_env_fields
      py_split_def py_index_def is_space_def)

end
